theory Spec2Isabelle
  imports Complex_Main
begin

chapter \<open>Endpoint discovery and resilient polling of the Antigravity quota monitor\<close>

text \<open>
  A shallow embedding of the polling client (\<^verbatim>\<open>src/services/api/AntigravityClient.ts\<close>),
  of the Unix and Windows process detectors
  (\<^verbatim>\<open>src/services/discovery/process/UnixProcessDetector.ts\<close>,
  \<^verbatim>\<open>WindowsProcessDetector\<close>) and of the detection loop
  (\<^verbatim>\<open>ProcessPortDetector.detectProcessInfo\<close>).

  Conventions of the model.
  \<^item> A JavaScript string is a \<^typ>\<open>string\<close>: a list of 8-bit code units, text beyond ASCII
    in UTF-8. The white space class \<^verbatim>\<open>\s\<close> and \<^verbatim>\<open>trim()\<close> are modelled on their
    ASCII members; \<^verbatim>\<open>toLowerCase()\<close> and the \<^verbatim>\<open>/i\<close> flag fold the letters A to Z.
  \<^item> A JavaScript number that holds a process id, a port or a time in milliseconds is a
    \<^typ>\<open>nat\<close> or an \<^typ>\<open>int\<close>; a number inside a JSON document is a \<^typ>\<open>rat\<close>
    (every finite double is one). Rounding of doubles is outside the model.
  \<^item> \<^verbatim>\<open>undefined\<close> is \<^term>\<open>None\<close>; every \<^verbatim>\<open>throw\<close> is the \<^term>\<open>Inl\<close> branch of a
    sum.
  \<^item> What the program reads from outside (the network, the clock, the process table, the
    built-in \<^verbatim>\<open>Date\<close> parser) is a parameter of the function that reads it.
\<close>

section \<open>Strings\<close>

fun startsWith :: "string \<Rightarrow> string \<Rightarrow> bool" where
  "startsWith s [] = True"
| "startsWith [] (p # ps) = False"
| "startsWith (c # cs) (p # ps) = (c = p \<and> startsWith cs ps)"

text \<open>\<^verbatim>\<open>s.includes(sub)\<close>: \<^verbatim>\<open>sub\<close> occurs in \<^verbatim>\<open>s\<close> as a contiguous run.\<close>

fun str_includes :: "string \<Rightarrow> string \<Rightarrow> bool" where
  "str_includes [] sub = (sub = [])"
| "str_includes (c # cs) sub = (startsWith (c # cs) sub \<or> str_includes cs sub)"

definition lowerChar :: "char \<Rightarrow> char" where
  "lowerChar c =
     (case map_of (zip ''ABCDEFGHIJKLMNOPQRSTUVWXYZ'' ''abcdefghijklmnopqrstuvwxyz'') c of
        Some l \<Rightarrow> l
      | None \<Rightarrow> c)"

definition toLowerCase :: "string \<Rightarrow> string" where
  "toLowerCase s = map lowerChar s"





definition digitChar :: "nat \<Rightarrow> char" where
  "digitChar d = ''0123456789'' ! d"

text \<open>The decimal numeral of a natural number, as a template literal prints it.\<close>

fun showNat :: "nat \<Rightarrow> string" where
  "showNat n = (if n < 10 then [digitChar n] else showNat (n div 10) @ [digitChar (n mod 10)])"

section \<open>Text of the operating system's tools\<close>







subsection \<open>Regular expressions\<close>









section \<open>The Unix process detector\<close>

text \<open>What \<^verbatim>\<open>parseProcessInfo\<close> of a platform strategy returns, and the candidate of the
  Unix strategy, which also keeps the parent's process id.\<close>

record ProcessRecord =
  pid :: int
  extensionPort :: nat
  csrfToken :: string




















section \<open>The Windows process detector\<close>





section \<open>The detection loop\<close>

text \<open>What \<^verbatim>\<open>detectProcessInfo\<close> returns when it finds the server.\<close>

record AntigravityProcessInfo =
  extensionPort :: nat
  connectPort :: nat
  csrfToken :: string

text \<open>
  The platform strategy the detector holds: the Unix one, or the Windows one with its flag
  \<^verbatim>\<open>usePowerShell\<close>. \<^verbatim>\<open>getPlatformName()\<close> is "Windows" exactly when the strategy is the
  Windows one, which alone has \<^verbatim>\<open>setUsePowerShell\<close>.
\<close>

datatype strategy = UnixStrategy | WindowsStrategy bool

text \<open>
  What a run of the loop reads from outside, for the \<open>k\<close>-th execution of the \<^verbatim>\<open>try\<close>
  block: the outcome of the process listing for the strategy's command (the message of the
  error, or the output), the strategy's \<^verbatim>\<open>parseProcessInfo\<close>, the ports
  \<^verbatim>\<open>getProcessListeningPorts\<close> finds for a process id (it never throws), and whether a
  port answers the probe.
\<close>

record world =
  execProcessList :: "nat \<Rightarrow> strategy \<Rightarrow> string + string"
  strategyParse :: "strategy \<Rightarrow> string \<Rightarrow> ProcessRecord option"
  getProcessListeningPorts :: "nat \<Rightarrow> int \<Rightarrow> nat list"
  testPortConnectivity :: "nat \<Rightarrow> nat \<Rightarrow> string \<Rightarrow> bool"

definition findWorkingPort :: "(nat \<Rightarrow> string \<Rightarrow> bool) \<Rightarrow> nat list \<Rightarrow> string \<Rightarrow> nat option" where
  "findWorkingPort works ports token = find (\<lambda>p. works p token) ports"

text \<open>The \<^verbatim>\<open>try\<close> block: the record it returns, or the message of the error it throws.\<close>

definition attemptBody :: "world \<Rightarrow> nat \<Rightarrow> strategy \<Rightarrow> string + AntigravityProcessInfo" where
  "attemptBody w k strat =
     (case execProcessList w k strat of
        Inl message \<Rightarrow> Inl message
      | Inr stdout \<Rightarrow>
          (case strategyParse w strat stdout of
             None \<Rightarrow> Inl ''language_server process not found''
           | Some processInfo \<Rightarrow>
               (let listeningPorts = getProcessListeningPorts w k (pid processInfo) in
                if listeningPorts = [] then Inl ''Process is not listening on any ports''
                else
                  (case findWorkingPort (testPortConnectivity w k) listeningPorts
                          (ProcessRecord.csrfToken processInfo) of
                     None \<Rightarrow> Inl ''Unable to find a working API port''
                   | Some port \<Rightarrow>
                       if port = 0 then Inl ''Unable to find a working API port''
                       else Inr \<lparr>extensionPort = ProcessRecord.extensionPort processInfo,
                                 connectPort = port,
                                 csrfToken = ProcessRecord.csrfToken processInfo\<rparr>))))"

text \<open>The test of the \<^verbatim>\<open>catch\<close> block on the error's message; the third text is the
  message of a Chinese Windows for a command that is not recognised, in UTF-8.\<close>

definition toolMissing :: "string \<Rightarrow> bool" where
  "toolMissing errorMsg =
     (str_includes errorMsg ''not found''
      \<or> str_includes errorMsg ''not recognized''
      \<or> str_includes errorMsg
           [CHR 0xE4, CHR 0xB8, CHR 0x8D, CHR 0xE6, CHR 0x98, CHR 0xAF, CHR 0xE5, CHR 0x86,
            CHR 0x85, CHR 0xE9, CHR 0x83, CHR 0xA8, CHR 0xE6, CHR 0x88, CHR 0x96, CHR 0xE5,
            CHR 0xA4, CHR 0x96, CHR 0xE9, CHR 0x83, CHR 0xA8, CHR 0xE5, CHR 0x91, CHR 0xBD,
            CHR 0xE4, CHR 0xBB, CHR 0xA4])"

text \<open>How a run ended: the result, the value of \<^verbatim>\<open>attempt\<close> at the end, how often the
  \<^verbatim>\<open>try\<close> block ran, how often the loop waited \<^verbatim>\<open>retryDelay\<close>, how often it switched the
  listing tool, and the strategy it leaves.\<close>

record detection =
  found :: "AntigravityProcessInfo option"
  attempt :: nat
  executions :: nat
  delays :: nat
  toolSwitches :: nat
  strategyAfter :: strategy

text \<open>
  The \<^verbatim>\<open>for\<close> loop of \<^verbatim>\<open>detectProcessInfo\<close>, entered with the given value of \<^verbatim>\<open>attempt\<close>.
  After \<^verbatim>\<open>attempt--; continue\<close> the loop's own \<^verbatim>\<open>attempt++\<close> restores the counter, so the
  next round runs with the same \<^verbatim>\<open>attempt\<close> and without the delay.
\<close>

function detectLoop ::
  "world \<Rightarrow> nat \<Rightarrow> nat \<Rightarrow> strategy \<Rightarrow> nat \<Rightarrow> nat \<Rightarrow> nat \<Rightarrow> detection" where
  "detectLoop w maxRetries n strat k waited switched =
     (if n \<le> maxRetries
      then
        (case attemptBody w k strat of
           Inr info \<Rightarrow>
             \<lparr>found = Some info, attempt = n, executions = Suc k, delays = waited,
              toolSwitches = switched, strategyAfter = strat\<rparr>
         | Inl errorMsg \<Rightarrow>
             if toolMissing errorMsg \<and> strat = WindowsStrategy False
             then detectLoop w maxRetries n (WindowsStrategy True) (Suc k) waited (Suc switched)
             else detectLoop w maxRetries (Suc n) strat (Suc k)
                    (if n < maxRetries then Suc waited else waited) switched)
      else \<lparr>found = None, attempt = n, executions = k, delays = waited,
             toolSwitches = switched, strategyAfter = strat\<rparr>)"
  by pat_completeness auto
termination
  by (relation "measure (\<lambda>(w, maxRetries, n, strat, k, waited, switched).
          2 * (Suc maxRetries - n) + (if strat = WindowsStrategy False then 1 else 0))")
     auto

declare detectLoop.simps [simp del]

text \<open>\<^verbatim>\<open>detectProcessInfo(maxRetries, retryDelay)\<close> on a detector with the given strategy.\<close>

definition detectProcessInfo :: "world \<Rightarrow> strategy \<Rightarrow> nat \<Rightarrow> detection" where
  "detectProcessInfo w strat maxRetries = detectLoop w maxRetries 1 strat 0 0 0"

section \<open>JSON values\<close>

text \<open>
  What \<^verbatim>\<open>JSON.parse\<close> returns. An object is the list of its properties; a property that
  is missing reads as \<^verbatim>\<open>undefined\<close>, which is \<^term>\<open>None\<close>.
\<close>

datatype json =
    JNull
  | JBool bool
  | JNum rat
  | JStr string
  | JArr "json list"
  | JObj "(string \<times> json) list"

text \<open>\<^verbatim>\<open>v.k\<close> on a receiver that is neither \<^verbatim>\<open>null\<close> nor \<^verbatim>\<open>undefined\<close>. None of the
  property names the client reads is inherited by a string, a number, a boolean or an
  array, so only an object can answer.\<close>

definition getProp :: "json \<Rightarrow> string \<Rightarrow> json option" where
  "getProp v k = (case v of JObj kvs \<Rightarrow> map_of kvs k | _ \<Rightarrow> None)"

text \<open>\<^verbatim>\<open>v?.k\<close>: \<^verbatim>\<open>undefined\<close> when the receiver is \<^verbatim>\<open>null\<close> or \<^verbatim>\<open>undefined\<close>.\<close>

definition optProp :: "json option \<Rightarrow> string \<Rightarrow> json option" where
  "optProp v k = (case v of None \<Rightarrow> None | Some JNull \<Rightarrow> None | Some o' \<Rightarrow> getProp o' k)"

definition nullish :: "json option \<Rightarrow> bool" where
  "nullish v = (v = None \<or> v = Some JNull)"

text \<open>JavaScript truthiness.\<close>

definition truthy :: "json option \<Rightarrow> bool" where
  "truthy v =
     (case v of
        None \<Rightarrow> False
      | Some JNull \<Rightarrow> False
      | Some (JBool b) \<Rightarrow> b
      | Some (JNum n) \<Rightarrow> n \<noteq> 0
      | Some (JStr s) \<Rightarrow> s \<noteq> []
      | Some (JArr _) \<Rightarrow> True
      | Some (JObj _) \<Rightarrow> True)"

section \<open>The request: HTTPS first, plain HTTP as a fallback\<close>

text \<open>An \<^verbatim>\<open>Error\<close> a request is rejected with: Node's \<^verbatim>\<open>code\<close>, when it has one, and the
  \<^verbatim>\<open>message\<close>.\<close>

record req_error =
  err_code :: "string option"
  err_message :: string

text \<open>
  \<^verbatim>\<open>makeRequest\<close>. The parameter \<open>doRequest useHttps targetPort\<close> is the outcome of
  the inner \<^verbatim>\<open>doRequest\<close> promise: \<^term>\<open>Inl\<close> when it rejects, \<^term>\<open>Inr\<close> with the parsed
  body when it resolves. The result is paired with the requests that were issued, in
  order, each as (over HTTPS?, port).
\<close>

definition makeRequest ::
  "(bool \<Rightarrow> nat \<Rightarrow> req_error + json) \<Rightarrow> nat \<Rightarrow> nat option \<Rightarrow> string option
     \<Rightarrow> (req_error + json) \<times> (bool \<times> nat) list" where
  "makeRequest doRequest port httpPort token =
     (if token = None \<or> token = Some []
      then (Inl \<lparr>err_code = None, err_message = ''Missing CSRF token''\<rparr>, [])
      else
        (case doRequest True port of
           Inr body \<Rightarrow> (Inr body, [(True, port)])
         | Inl error \<Rightarrow>
             (let msg = toLowerCase (err_message error) in
              case httpPort of
                Some fallback \<Rightarrow>
                  if err_code error = Some ''EPROTO'' \<or> str_includes msg ''wrong_version_number''
                  then (doRequest False fallback, [(True, port), (False, fallback)])
                  else (Inl error, [(True, port)])
              | None \<Rightarrow> (Inl error, [(True, port)]))))"

section \<open>Parsing the response\<close>

datatype fetch_error =
    RequestFailed req_error
  | InvalidCode json "json option"
  | InvalidResponseFormat
  | TypeError

text \<open>\<^verbatim>\<open>getInvalidCodeInfo\<close>: \<^term>\<open>None\<close> is the \<^verbatim>\<open>null\<close> of the source, the response
  passes; otherwise the offending code and the response's message.\<close>

definition okValues :: "json list" where
  "okValues = [JNum 0, JStr ''0'', JStr ''OK'', JStr ''Ok'', JStr ''ok'',
               JStr ''success'', JStr ''SUCCESS'']"

definition getInvalidCodeInfo :: "json \<Rightarrow> (json \<times> json option) option" where
  "getInvalidCodeInfo response =
     (case optProp (Some response) ''code'' of
        None \<Rightarrow> None
      | Some JNull \<Rightarrow> None
      | Some code \<Rightarrow>
          if code \<in> set okValues then None
          else Some (code, optProp (Some response) ''message''))"

text \<open>
  What the parser reads from its host: the time value of \<^verbatim>\<open>new Date(v)\<close> (\<^term>\<open>None\<close>
  for an invalid date), the number \<^verbatim>\<open>v * 1\<close> coerces to (\<^term>\<open>None\<close> for \<^verbatim>\<open>NaN\<close>), the
  readings of \<^verbatim>\<open>Date.now()\<close> in the order they are taken, and \<^verbatim>\<open>new Date()\<close>.
\<close>

record host =
  dateValue :: "json \<Rightarrow> int option"
  toNumber :: "json \<Rightarrow> rat option"
  clock :: "nat \<Rightarrow> int"
  today :: int

record ModelQuotaInfo =
  label :: "json option"
  modelId :: "json option"
  remainingFraction :: "json option"
  remainingPercentage :: "rat option option"
  isExhausted :: bool
  resetTime :: int
  timeUntilReset :: int
  timeUntilResetFormatted :: string

record QuotaSnapshot =
  timestamp :: int
  models :: "ModelQuotaInfo list"
  planName :: "json option"

definition formatTimeUntilReset :: "int \<Rightarrow> string" where
  "formatTimeUntilReset ms =
     (if ms \<le> 0 then ''Expired''
      else
        (let seconds = nat ms div 1000;
             minutes = seconds div 60;
             hours = minutes div 60;
             days = hours div 24
         in if days > 0 then showNat days @ ''d'' @ showNat (hours mod 24) @ ''h from now''
            else if hours > 0
              then showNat hours @ ''h '' @ showNat (minutes mod 60) @ ''m from now''
            else if minutes > 0
              then showNat minutes @ ''m '' @ showNat (seconds mod 60) @ ''s from now''
            else showNat seconds @ ''s from now''))"

definition FAR_FUTURE :: int where
  "FAR_FUTURE = 8640000000000000"

text \<open>
  \<^verbatim>\<open>parseModelQuota\<close>. \<open>now1\<close> is the clock reading of the fallback
  (\<^verbatim>\<open>Date.now() + 24 * 60 * 60 * 1000\<close>), \<open>now2\<close> the later reading that
  \<^verbatim>\<open>timeUntilReset\<close> is measured from. Reading a property of \<^verbatim>\<open>null\<close> or
  \<^verbatim>\<open>undefined\<close> throws a \<^verbatim>\<open>TypeError\<close>.
\<close>

definition parseModelQuota :: "host \<Rightarrow> int \<Rightarrow> int \<Rightarrow> json \<Rightarrow> fetch_error + ModelQuotaInfo" where
  "parseModelQuota H now1 now2 config =
     (if config = JNull then Inl TypeError
      else
        (let quotaInfo = getProp config ''quotaInfo'';
             fraction = optProp quotaInfo ''remainingFraction''
         in if nullish quotaInfo then Inl TypeError
            else
              (let rt = optProp quotaInfo ''resetTime'';
                   (reset, until) =
                     (if \<not> truthy rt \<or> rt = Some (JStr ''infinite'')
                      then (FAR_FUTURE, FAR_FUTURE)
                      else
                        (let parsed = (case dateValue H (the rt) of
                                         Some t \<Rightarrow> t
                                       | None \<Rightarrow> now1 + 24 * 60 * 60 * 1000)
                         in (parsed, parsed - now2)));
                   modelOrAlias = getProp config ''modelOrAlias''
               in if nullish modelOrAlias then Inl TypeError
                  else Inr \<lparr>label = getProp config ''label'',
                            modelId = optProp modelOrAlias ''model'',
                            remainingFraction = fraction,
                            remainingPercentage =
                              (case fraction of
                                 None \<Rightarrow> None
                               | Some f \<Rightarrow> Some (map_option (\<lambda>n. n * 100) (toNumber H f))),
                            isExhausted = (fraction = None \<or> fraction = Some (JNum 0)),
                            resetTime = reset,
                            timeUntilReset = until,
                            timeUntilResetFormatted = formatTimeUntilReset until\<rparr>)))"

text \<open>How often \<^verbatim>\<open>parseModelQuota\<close> reads \<^verbatim>\<open>Date.now()\<close> for an entry: not at all in the
  far-future branch, once for a valid date, twice for an invalid one.\<close>

definition clockReadings :: "host \<Rightarrow> json \<Rightarrow> nat" where
  "clockReadings H config =
     (let rt = optProp (getProp config ''quotaInfo'') ''resetTime''
      in if \<not> truthy rt \<or> rt = Some (JStr ''infinite'') then 0
         else if dateValue H (the rt) = None then 2
         else 1)"

text \<open>All the models of a list, or the first error; \<open>k\<close> counts the readings of the clock
  taken so far, so each entry gets the next readings in the order it takes them.\<close>

fun parseModels :: "host \<Rightarrow> nat \<Rightarrow> json list \<Rightarrow> fetch_error + ModelQuotaInfo list" where
  "parseModels H k [] = Inr []"
| "parseModels H k (config # rest) =
     (case parseModelQuota H (clock H k)
             (clock H (if clockReadings H config = 2 then Suc k else k)) config of
        Inl e \<Rightarrow> Inl e
      | Inr m \<Rightarrow>
          (case parseModels H (k + clockReadings H config) rest of
             Inl e \<Rightarrow> Inl e
           | Inr ms \<Rightarrow> Inr (m # ms)))"

text \<open>
  \<^verbatim>\<open>parseGetUserStatusResponse\<close>. \<^verbatim>\<open>modelConfigs.filter\<close> throws when the value is not
  an array, and its callback throws on a \<^verbatim>\<open>null\<close> entry.
\<close>

definition parseGetUserStatusResponse :: "host \<Rightarrow> json \<Rightarrow> fetch_error + QuotaSnapshot" where
  "parseGetUserStatusResponse H response =
     (if \<not> truthy (Some response) \<or> \<not> truthy (getProp response ''userStatus'')
      then Inl InvalidResponseFormat
      else
        (let userStatus = getProp response ''userStatus'';
             declared = optProp (optProp userStatus ''cascadeModelConfigData'')
                          ''clientModelConfigs'';
             modelConfigs = (if truthy declared then the declared else JArr [])
         in case modelConfigs of
              JArr configs \<Rightarrow>
                if JNull \<in> set configs then Inl TypeError
                else
                  (case parseModels H 0 (filter (\<lambda>c. truthy (getProp c ''quotaInfo'')) configs) of
                     Inl e \<Rightarrow> Inl e
                   | Inr ms \<Rightarrow>
                       Inr \<lparr>timestamp = today H, models = ms,
                            planName = optProp (optProp userStatus ''userTier'') ''name''\<rparr>)
            | _ \<Rightarrow> Inl TypeError))"

text \<open>The \<^verbatim>\<open>try\<close> block of \<^verbatim>\<open>doFetchQuota\<close>, from the settled request to the snapshot.\<close>

definition tryFetch :: "host \<Rightarrow> req_error + json \<Rightarrow> fetch_error + QuotaSnapshot" where
  "tryFetch H outcome =
     (case outcome of
        Inl e \<Rightarrow> Inl (RequestFailed e)
      | Inr response \<Rightarrow>
          (case getInvalidCodeInfo response of
             Some (code, message) \<Rightarrow> Inl (InvalidCode code message)
           | None \<Rightarrow> parseGetUserStatusResponse H response))"

section \<open>The polling client\<close>

text \<open>A call the client makes to one of its subscribers.\<close>

datatype call =
    StatusFetching
  | StatusRetrying nat
  | QuotaUpdate QuotaSnapshot
  | ErrorRaised fetch_error

text \<open>
  The fields of \<^verbatim>\<open>AntigravityClient\<close>; a callback is the identity of the registered
  function, the polling interval the period of the armed \<^verbatim>\<open>setInterval\<close> timer. Three
  more fields hold what the object leaves in its runtime: \<open>inFlight\<close>, the activations of
  \<^verbatim>\<open>doFetchQuota\<close> that wait for their request; \<open>retryTimers\<close>, the \<^verbatim>\<open>setTimeout\<close>
  callbacks that are scheduled and have not run; \<open>calls\<close>, the calls made to the
  subscribers so far, oldest first. Subscribers return normally.
\<close>

record client =
  port :: nat
  httpPort :: "nat option"
  pollingInterval :: "nat option"
  updateCallback :: "nat option"
  errorCallback :: "nat option"
  statusCallback :: "nat option"
  isFirstAttempt :: bool
  retryCount :: nat
  isRetrying :: bool
  csrfToken :: "string option"
  inFlight :: nat
  retryTimers :: nat
  calls :: "call list"

definition MAX_RETRY_COUNT :: nat where
  "MAX_RETRY_COUNT = 3"

definition newClient :: "nat \<Rightarrow> string option \<Rightarrow> nat option \<Rightarrow> client" where
  "newClient p token fallback =
     \<lparr>port = p,
      httpPort = Some (case fallback of Some h \<Rightarrow> h | None \<Rightarrow> p),
      pollingInterval = None,
      updateCallback = None, errorCallback = None, statusCallback = None,
      isFirstAttempt = True, retryCount = 0, isRetrying = False,
      csrfToken = token,
      inFlight = 0, retryTimers = 0, calls = []\<rparr>"

definition setAuthInfo :: "string option \<Rightarrow> client \<Rightarrow> client" where
  "setAuthInfo token c = c\<lparr>csrfToken := token\<rparr>"

definition setPorts :: "nat \<Rightarrow> nat option \<Rightarrow> client \<Rightarrow> client" where
  "setPorts secure fallback c =
     c\<lparr>port := secure,
       httpPort := Some (case fallback of Some h \<Rightarrow> h | None \<Rightarrow> secure),
       retryCount := 0\<rparr>"

definition onQuotaUpdate :: "nat \<Rightarrow> client \<Rightarrow> client" where
  "onQuotaUpdate cb c = c\<lparr>updateCallback := Some cb\<rparr>"

definition onError :: "nat \<Rightarrow> client \<Rightarrow> client" where
  "onError cb c = c\<lparr>errorCallback := Some cb\<rparr>"

definition onStatus :: "nat \<Rightarrow> client \<Rightarrow> client" where
  "onStatus cb c = c\<lparr>statusCallback := Some cb\<rparr>"

definition stopPolling :: "client \<Rightarrow> client" where
  "stopPolling c = c\<lparr>pollingInterval := None\<rparr>"

definition makeGetUserStatusRequest ::
  "(bool \<Rightarrow> nat \<Rightarrow> req_error + json) \<Rightarrow> client \<Rightarrow> (req_error + json) \<times> (bool \<times> nat) list" where
  "makeGetUserStatusRequest net c = makeRequest net (port c) (httpPort c) (csrfToken c)"

text \<open>
  \<^verbatim>\<open>doFetchQuota\<close> runs in two steps, with the \<^verbatim>\<open>await\<close> of the request between them:
  \<open>doFetchQuota_begin\<close> is the code before it, \<open>doFetchQuota_settle\<close> the code that
  resumes with the outcome of \<^verbatim>\<open>makeGetUserStatusRequest\<close>.
\<close>

definition doFetchQuota_begin :: "client \<Rightarrow> client" where
  "doFetchQuota_begin c =
     c\<lparr>calls := calls c @
          (if statusCallback c \<noteq> None \<and> isFirstAttempt c then [StatusFetching] else []),
       inFlight := Suc (inFlight c)\<rparr>"

definition doFetchQuota_settle :: "host \<Rightarrow> req_error + json \<Rightarrow> client \<Rightarrow> client" where
  "doFetchQuota_settle H outcome c =
     (case tryFetch H outcome of
        Inr snapshot \<Rightarrow>
          c\<lparr>retryCount := 0, isFirstAttempt := False, isRetrying := False,
            inFlight := inFlight c - 1,
            calls := calls c @ (if updateCallback c \<noteq> None then [QuotaUpdate snapshot] else [])\<rparr>
      | Inl error \<Rightarrow>
          if retryCount c < MAX_RETRY_COUNT
          then c\<lparr>retryCount := retryCount c + 1, isRetrying := True,
                 inFlight := inFlight c - 1,
                 retryTimers := Suc (retryTimers c),
                 calls := calls c @
                   (if statusCallback c \<noteq> None then [StatusRetrying (retryCount c + 1)] else [])\<rparr>
          else c\<lparr>isRetrying := False, retryCount := 0,
                 inFlight := inFlight c - 1,
                 calls := calls c @ (if errorCallback c \<noteq> None then [ErrorRaised error] else [])\<rparr>)"

text \<open>A fetch whose request settles, with \<open>outcome\<close>, before anything else happens.\<close>

definition doFetchQuota :: "host \<Rightarrow> req_error + json \<Rightarrow> client \<Rightarrow> client" where
  "doFetchQuota H outcome c = doFetchQuota_settle H outcome (doFetchQuota_begin c)"

text \<open>\<^verbatim>\<open>fetchQuota\<close>, what a tick of the polling timer runs, and \<^verbatim>\<open>quickRefresh\<close>: the
  step up to the request, and the whole fetch.\<close>

definition fetchQuota_begin :: "client \<Rightarrow> client" where
  "fetchQuota_begin c = (if isRetrying c then c else doFetchQuota_begin c)"

definition quickRefresh_begin :: "client \<Rightarrow> client" where
  "quickRefresh_begin c = doFetchQuota_begin c"

definition fetchQuota :: "host \<Rightarrow> req_error + json \<Rightarrow> client \<Rightarrow> client" where
  "fetchQuota H outcome c = (if isRetrying c then c else doFetchQuota H outcome c)"

definition quickRefresh :: "host \<Rightarrow> req_error + json \<Rightarrow> client \<Rightarrow> client" where
  "quickRefresh H outcome c = doFetchQuota H outcome c"

text \<open>The callback of the retry's \<^verbatim>\<open>setTimeout\<close>.\<close>

definition retryTimer :: "host \<Rightarrow> req_error + json \<Rightarrow> client \<Rightarrow> client" where
  "retryTimer H outcome c =
     fetchQuota H outcome (c\<lparr>isRetrying := False, retryTimers := retryTimers c - 1\<rparr>)"

definition startPolling :: "host \<Rightarrow> req_error + json \<Rightarrow> nat \<Rightarrow> client \<Rightarrow> client" where
  "startPolling H outcome intervalMs c =
     (fetchQuota H outcome (stopPolling c))\<lparr>pollingInterval := Some intervalMs\<rparr>"

text \<open>Consecutive runs of \<^verbatim>\<open>doFetchQuota\<close>, one for each outcome of the list.\<close>

fun fetches :: "host \<Rightarrow> (req_error + json) list \<Rightarrow> client \<Rightarrow> client" where
  "fetches H [] c = c"
| "fetches H (outcome # rest) c = fetches H rest (doFetchQuota H outcome c)"

fun isErrorCall :: "call \<Rightarrow> bool" where
  "isErrorCall (ErrorRaised e) = True"
| "isErrorCall other = False"

definition errorCalls :: "client \<Rightarrow> nat" where
  "errorCalls c = length (filter isErrorCall (calls c))"

section \<open>Sample inputs\<close>







text \<open>
  A Windows machine on which the first process listing fails because the shell does not
  know the command, and every later one finds the server: process 100, declared port 5050,
  listening on 7070, which answers the probe.
\<close>

definition flakyListing :: world where
  "flakyListing =
     \<lparr>execProcessList =
        (\<lambda>k strat.
           if k = 0
           then Inl ''Command failed: the command is not recognized as an internal or external command''
           else Inr ''ProcessId=100''),
      strategyParse =
        (\<lambda>strat stdout. Some \<lparr>pid = 100, extensionPort = 5050, csrfToken = ''abc123''\<rparr>),
      getProcessListeningPorts = (\<lambda>k p. [7070]),
      testPortConnectivity = (\<lambda>k p token. True)\<rparr>"

text \<open>
  A host for the worked examples: its \<^verbatim>\<open>Date\<close> recognises one timestamp and rejects every
  other value, its number coercion is the identity on numbers. The examples use it only
  where JavaScript agrees: the strings \<^verbatim>\<open>""\<close>, \<^verbatim>\<open>"infinite"\<close> and \<^verbatim>\<open>"next week"\<close> are
  invalid dates.
\<close>

definition testHost :: host where
  "testHost =
     \<lparr>dateValue = (\<lambda>v. if v = JStr ''2030-01-01T00:00:00Z'' then Some 1893456000000 else None),
      toNumber = (\<lambda>v. case v of JNum n \<Rightarrow> Some n | _ \<Rightarrow> None),
      clock = (\<lambda>k. 1700000000000 + int k),
      today = 1700000000000\<rparr>"

text \<open>A request that ends in the \<^verbatim>\<open>timeout\<close> event.\<close>

definition timeoutError :: "req_error + json" where
  "timeoutError = Inl \<lparr>err_code = None, err_message = ''Timeout''\<rparr>"

text \<open>A client with an error subscriber and a polling timer of 15 seconds, and the same
  client after one tick whose request timed out.\<close>

definition polledClient :: client where
  "polledClient =
     (onError 1 (newClient 7070 (Some ''abc123'') (Some 5050)))\<lparr>pollingInterval := Some 15000\<rparr>"

definition retryingClient :: client where
  "retryingClient = fetchQuota testHost timeoutError polledClient"

text \<open>Errors of the HTTPS attempt: a handshake error with the text of BoringSSL, in
  capitals, and no code; the one of OpenSSL, with the code \<^verbatim>\<open>EPROTO\<close>; a refused
  connection.\<close>

definition boringSslMismatch :: req_error where
  "boringSslMismatch =
     \<lparr>err_code = None,
      err_message = ''error:100000f7:SSL routines:OPENSSL_internal:WRONG_VERSION_NUMBER''\<rparr>"

definition openSslMismatch :: req_error where
  "openSslMismatch =
     \<lparr>err_code = Some ''EPROTO'',
      err_message = ''write EPROTO error:0A00010B:SSL routines:ssl3_get_record:wrong version number''\<rparr>"

definition connectionRefused :: req_error where
  "connectionRefused =
     \<lparr>err_code = Some ''ECONNREFUSED'', err_message = ''connect ECONNREFUSED 127.0.0.1:7070''\<rparr>"

text \<open>A server that rejects every HTTPS request with the given error and answers every
  plain HTTP request.\<close>

definition plainServer :: "req_error \<Rightarrow> bool \<Rightarrow> nat \<Rightarrow> req_error + json" where
  "plainServer tlsError useHttps targetPort =
     (if useHttps then Inl tlsError else Inr (JObj [(''code'', JNum 0)]))"

text \<open>A model entry with half of its quota left and the given \<^verbatim>\<open>resetTime\<close>.\<close>

definition modelEntry :: "json \<Rightarrow> json" where
  "modelEntry reset =
     JObj [(''label'', JStr ''Model A''),
           (''modelOrAlias'', JObj [(''model'', JStr ''MODEL_A'')]),
           (''quotaInfo'', JObj [(''remainingFraction'', JNum (1 / 2)), (''resetTime'', reset)])]"

text \<open>A well-formed answer of the server: one model, on the "pro" plan.\<close>

definition statusResponse :: json where
  "statusResponse =
     JObj [(''userStatus'',
            JObj [(''name'', JStr ''user''),
                  (''cascadeModelConfigData'',
                   JObj [(''clientModelConfigs'', JArr [modelEntry (JStr ''infinite'')])]),
                  (''userTier'', JObj [(''name'', JStr ''pro'')])])]"

text \<open>
  A Windows machine on which the first process listing times out, the second fails because
  the shell does not know the command, and every later one finds the same server.
\<close>

definition lateMissing :: world where
  "lateMissing =
     \<lparr>execProcessList =
        (\<lambda>k strat.
           if k = 0 then Inl ''Command failed: process listing timed out''
           else if k = 1
           then Inl ''Command failed: the command is not recognized as an internal or external command''
           else Inr ''ProcessId=100''),
      strategyParse =
        (\<lambda>strat stdout. Some \<lparr>pid = 100, extensionPort = 5050, csrfToken = ''abc123''\<rparr>),
      getProcessListeningPorts = (\<lambda>k p. [7070]),
      testPortConnectivity = (\<lambda>k p token. True)\<rparr>"

chapter \<open>Properties\<close>

section \<open>The retry budget\<close>

lemma doFetchQuota_failure:
  assumes "tryFetch H out = Inl e"
  shows "doFetchQuota H out c =
     (if retryCount c < MAX_RETRY_COUNT
      then c\<lparr>retryCount := retryCount c + 1, isRetrying := True,
             inFlight := inFlight c,
             retryTimers := Suc (retryTimers c),
             calls := calls c @
               (if statusCallback c \<noteq> None \<and> isFirstAttempt c then [StatusFetching] else []) @
               (if statusCallback c \<noteq> None then [StatusRetrying (retryCount c + 1)] else [])\<rparr>
      else c\<lparr>isRetrying := False, retryCount := 0,
             inFlight := inFlight c,
             calls := calls c @
               (if statusCallback c \<noteq> None \<and> isFirstAttempt c then [StatusFetching] else []) @
               (if errorCallback c \<noteq> None then [ErrorRaised e] else [])\<rparr>)"
  using assms by (simp add: doFetchQuota_def doFetchQuota_settle_def doFetchQuota_begin_def)

lemma doFetchQuota_success:
  assumes "tryFetch H out = Inr s"
  shows "doFetchQuota H out c =
      c\<lparr>retryCount := 0, isFirstAttempt := False, isRetrying := False,
        inFlight := inFlight c,
        calls := calls c @
          (if statusCallback c \<noteq> None \<and> isFirstAttempt c then [StatusFetching] else []) @
          (if updateCallback c \<noteq> None then [QuotaUpdate s] else [])\<rparr>"
  using assms by (simp add: doFetchQuota_def doFetchQuota_settle_def doFetchQuota_begin_def)

lemma fetches_append: "fetches H (xs @ ys) c = fetches H ys (fetches H xs c)"
  by (induction xs arbitrary: c) simp_all

text \<open>While the budget lasts, every failure adds one to the counter and nothing reaches
  the error subscriber.\<close>

lemma fetches_within_budget:
  assumes "\<forall>out \<in> set outs. isl (tryFetch H out)"
    and "retryCount c + length outs \<le> MAX_RETRY_COUNT"
  shows "retryCount (fetches H outs c) = retryCount c + length outs
       \<and> errorCalls (fetches H outs c) = errorCalls c
       \<and> errorCallback (fetches H outs c) = errorCallback c
       \<and> pollingInterval (fetches H outs c) = pollingInterval c"
  using assms
proof (induction outs arbitrary: c)
  case Nil
  then show ?case by simp
next
  case (Cons out outs)
  from Cons.prems obtain e where e: "tryFetch H out = Inl e"
    by (cases "tryFetch H out") auto
  let ?c = "doFetchQuota H out c"
  from Cons.prems have lt: "retryCount c < MAX_RETRY_COUNT" by simp
  have step: "retryCount ?c = retryCount c + 1" "errorCalls ?c = errorCalls c"
    "errorCallback ?c = errorCallback c" "pollingInterval ?c = pollingInterval c"
    using lt by (simp_all add: doFetchQuota_failure [OF e] errorCalls_def)
  have "retryCount ?c + length outs \<le> MAX_RETRY_COUNT"
    using Cons.prems step by simp
  with Cons.IH [of ?c] Cons.prems step show ?case by simp
qed

lemma tryFetch_timeout:
  "tryFetch H timeoutError = Inl (RequestFailed \<lparr>err_code = None, err_message = ''Timeout''\<rparr>)"
  by (simp add: tryFetch_def timeoutError_def)

lemma retryingClient_eq:
  "retryingClient =
     polledClient\<lparr>retryCount := 1, isRetrying := True, inFlight := 0, retryTimers := 1, calls := []\<rparr>"
  by (simp add: retryingClient_def fetchQuota_def doFetchQuota_failure [OF tryFetch_timeout]
      polledClient_def onError_def newClient_def MAX_RETRY_COUNT_def)

text \<open>
  C1, as the code has it. \<^verbatim>\<open>MAX_RETRY_COUNT\<close> bounds the retries, not the attempts: from a
  retry counter of 0, \<^verbatim>\<open>MAX_RETRY_COUNT\<close> consecutive failures of \<^verbatim>\<open>doFetchQuota\<close> leave the
  counter at \<^verbatim>\<open>MAX_RETRY_COUNT\<close> and the error subscriber uncalled; the failure after them,
  the fourth, calls the registered error subscriber once, with that failure's error, and
  leaves the counter at 0. The polling timer is armed as before.
\<close>

theorem retry_budget_exhausted_by_fourth_failure:
  assumes "retryCount c = 0" and "errorCallback c \<noteq> None"
    and "length outs = MAX_RETRY_COUNT"
    and "\<forall>out \<in> set outs. isl (tryFetch H out)" and "tryFetch H final = Inl e"
  shows "retryCount (fetches H outs c) = MAX_RETRY_COUNT
       \<and> errorCalls (fetches H outs c) = errorCalls c
       \<and> retryCount (fetches H (outs @ [final]) c) = 0
       \<and> errorCalls (fetches H (outs @ [final]) c) = errorCalls c + 1
       \<and> last (calls (fetches H (outs @ [final]) c)) = ErrorRaised e
       \<and> pollingInterval (fetches H (outs @ [final]) c) = pollingInterval c"
proof -
  let ?c = "fetches H outs c"
  have b: "retryCount ?c = MAX_RETRY_COUNT" "errorCalls ?c = errorCalls c"
    "errorCallback ?c = errorCallback c" "pollingInterval ?c = pollingInterval c"
    using fetches_within_budget [of outs H c] assms by simp_all
  have f: "fetches H (outs @ [final]) c = doFetchQuota H final ?c"
    by (simp add: fetches_append)
  show ?thesis
    using b assms(2) by (simp add: f doFetchQuota_failure [OF assms(5)] errorCalls_def)
qed

theorem retry_budget_exhausted_by_fourth_failure_witness:
  "retryCount (fetches testHost [timeoutError, timeoutError, timeoutError] polledClient) = 3
 \<and> errorCalls (fetches testHost [timeoutError, timeoutError, timeoutError] polledClient) = 0
 \<and> retryCount
     (fetches testHost [timeoutError, timeoutError, timeoutError, timeoutError] polledClient) = 0
 \<and> errorCalls
     (fetches testHost [timeoutError, timeoutError, timeoutError, timeoutError] polledClient) = 1
 \<and> pollingInterval
     (fetches testHost [timeoutError, timeoutError, timeoutError, timeoutError] polledClient)
     = Some 15000"
proof -
  have c: "retryCount polledClient = 0" "errorCallback polledClient \<noteq> None"
    "errorCalls polledClient = 0" "pollingInterval polledClient = Some 15000"
    by (simp_all add: polledClient_def onError_def newClient_def errorCalls_def)
  have l: "length [timeoutError, timeoutError, timeoutError] = MAX_RETRY_COUNT"
    by (simp add: MAX_RETRY_COUNT_def)
  have f: "\<forall>out \<in> set [timeoutError, timeoutError, timeoutError]. isl (tryFetch testHost out)"
    by (simp add: tryFetch_timeout)
  show ?thesis
    using retry_budget_exhausted_by_fourth_failure [OF c(1) c(2) l f tryFetch_timeout]
    by (simp add: c MAX_RETRY_COUNT_def)
qed

text \<open>After exactly three consecutive failures the error subscriber has not been called
  and the counter is 3, not 0; so it is when the three failures are those of a tick of the
  polling timer and of the two retries that follow it.\<close>

theorem three_failures_raise_no_error:
  "length [timeoutError, timeoutError, timeoutError] = MAX_RETRY_COUNT
 \<and> errorCallback polledClient = Some 1
 \<and> retryCount (fetches testHost [timeoutError, timeoutError, timeoutError] polledClient) = 3
 \<and> errorCalls (fetches testHost [timeoutError, timeoutError, timeoutError] polledClient) = 0
 \<and> retryCount
     (retryTimer testHost timeoutError
        (retryTimer testHost timeoutError
           (fetchQuota testHost timeoutError polledClient))) = 3
 \<and> errorCalls
     (retryTimer testHost timeoutError
        (retryTimer testHost timeoutError
           (fetchQuota testHost timeoutError polledClient))) = 0"
  by (simp add: retryTimer_def fetchQuota_def doFetchQuota_failure [OF tryFetch_timeout]
      polledClient_def onError_def newClient_def MAX_RETRY_COUNT_def errorCalls_def)

section \<open>The application-level status code\<close>

lemma okValues_set:
  "set okValues = {JNum 0, JStr ''0'', JStr ''OK'', JStr ''Ok'', JStr ''ok'',
                   JStr ''success'', JStr ''SUCCESS''}"
  by (simp add: okValues_def)

text \<open>
  C2, as the code has it. When the response has a \<^verbatim>\<open>code\<close> that is neither \<^verbatim>\<open>undefined\<close>
  nor \<^verbatim>\<open>null\<close>, \<^verbatim>\<open>getInvalidCodeInfo\<close> lets it pass exactly when the code is one of the
  seven values 0, "0", "OK", "Ok", "ok", "success", "SUCCESS". Any other code is returned
  with the response's message; the fetch then fails with both, and the failure takes one
  retry from the budget.
\<close>

theorem status_code_whitelist:
  assumes "optProp (Some response) ''code'' = Some code" and "code \<noteq> JNull"
  shows "(getInvalidCodeInfo response = None \<longleftrightarrow>
            code \<in> {JNum 0, JStr ''0'', JStr ''OK'', JStr ''Ok'', JStr ''ok'',
                     JStr ''success'', JStr ''SUCCESS''})
       \<and> (getInvalidCodeInfo response \<noteq> None \<longrightarrow>
            getInvalidCodeInfo response = Some (code, optProp (Some response) ''message'')
          \<and> tryFetch H (Inr response)
              = Inl (InvalidCode code (optProp (Some response) ''message''))
          \<and> (retryCount c < MAX_RETRY_COUNT \<longrightarrow>
               retryCount (doFetchQuota H (Inr response) c) = retryCount c + 1))"
proof -
  have g: "getInvalidCodeInfo response =
      (if code \<in> set okValues then None else Some (code, optProp (Some response) ''message''))"
    using assms by (cases code) (simp_all add: getInvalidCodeInfo_def)
  show ?thesis
  proof (cases "code \<in> set okValues")
    case True
    then show ?thesis using g by (simp add: okValues_set)
  next
    case False
    have t: "tryFetch H (Inr response)
               = Inl (InvalidCode code (optProp (Some response) ''message''))"
      using g False by (simp add: tryFetch_def)
    show ?thesis using g False by (simp add: okValues_set t doFetchQuota_failure [OF t])
  qed
qed

theorem status_code_whitelist_witness:
  "getInvalidCodeInfo (JObj [(''code'', JStr ''success'')]) = None
 \<and> getInvalidCodeInfo (JObj [(''code'', JNum 7), (''message'', JStr ''quota exceeded'')])
     = Some (JNum 7, Some (JStr ''quota exceeded''))
 \<and> retryCount
     (doFetchQuota testHost
        (Inr (JObj [(''code'', JNum 7), (''message'', JStr ''quota exceeded'')])) polledClient) = 1"
proof -
  have a: "optProp (Some (JObj [(''code'', JStr ''success'')])) ''code'' = Some (JStr ''success'')"
    by (simp add: optProp_def getProp_def)
  have b: "optProp (Some (JObj [(''code'', JNum 7), (''message'', JStr ''quota exceeded'')]))
             ''code'' = Some (JNum 7)"
    "optProp (Some (JObj [(''code'', JNum 7), (''message'', JStr ''quota exceeded'')]))
             ''message'' = Some (JStr ''quota exceeded'')"
    by (simp_all add: optProp_def getProp_def)
  have c: "retryCount polledClient = 0"
    by (simp add: polledClient_def onError_def newClient_def)
  show ?thesis
    using status_code_whitelist [OF a, of testHost polledClient]
          status_code_whitelist [OF b(1), of testHost polledClient]
    by (simp add: b(2) c MAX_RETRY_COUNT_def)
qed

text \<open>The code "Ok" is none of the six values 0, "0", "OK", "ok", "success", "SUCCESS", and
  the response passes.\<close>

theorem code_Ok_passes:
  "getInvalidCodeInfo (JObj [(''code'', JStr ''Ok''), (''message'', JStr ''quota exceeded'')]) = None
 \<and> JStr ''Ok'' \<notin> {JNum 0, JStr ''0'', JStr ''OK'', JStr ''ok'', JStr ''success'', JStr ''SUCCESS''}"
  by (simp add: getInvalidCodeInfo_def optProp_def getProp_def okValues_def)

section \<open>Ticks and manual refreshes while a retry is pending\<close>

text \<open>
  C3, as the code has it. While \<^verbatim>\<open>isRetrying\<close> is set, a tick of the polling timer
  (\<^verbatim>\<open>fetchQuota\<close>) returns at once and starts no attempt. \<^verbatim>\<open>quickRefresh\<close> does not read
  the flag: it runs \<^verbatim>\<open>doFetchQuota\<close>, so one more attempt is in flight.
\<close>

theorem retrying_suppresses_ticks_only:
  assumes "isRetrying c"
  shows "fetchQuota_begin c = c \<and> fetchQuota H outcome c = c
       \<and> inFlight (quickRefresh_begin c) = inFlight c + 1
       \<and> quickRefresh H outcome c = doFetchQuota H outcome c"
  using assms
  by (simp add: fetchQuota_begin_def fetchQuota_def quickRefresh_begin_def quickRefresh_def
      doFetchQuota_begin_def)

theorem retrying_suppresses_ticks_only_witness:
  "isRetrying retryingClient
 \<and> fetchQuota_begin retryingClient = retryingClient
 \<and> fetchQuota testHost timeoutError retryingClient = retryingClient
 \<and> inFlight (quickRefresh_begin retryingClient) = 1"
proof -
  have r: "isRetrying retryingClient" "inFlight retryingClient = 0"
    by (simp_all add: retryingClient_eq)
  show ?thesis
    using retrying_suppresses_ticks_only [OF r(1), of testHost timeoutError]
    by (simp add: r)
qed

text \<open>With a retry pending and no attempt in flight, a manual refresh starts an attempt,
  and a second one puts two in flight.\<close>

theorem quickRefresh_starts_attempt_while_retrying:
  "isRetrying retryingClient \<and> retryTimers retryingClient = 1 \<and> inFlight retryingClient = 0
 \<and> inFlight (quickRefresh_begin retryingClient) = 1
 \<and> inFlight (quickRefresh_begin (quickRefresh_begin retryingClient)) = 2"
  by (simp add: retryingClient_eq quickRefresh_begin_def doFetchQuota_begin_def)

section \<open>When the retry counter returns to zero\<close>

text \<open>
  C4, as the code has it. Every successful fetch, from a tick or from \<^verbatim>\<open>quickRefresh\<close>,
  leaves the retry counter at 0. Requesting a manual refresh does not reset it:
  \<^verbatim>\<open>quickRefresh\<close> leaves the counter as it is up to the request, and when that fetch fails
  within the budget the counter goes up by one.
\<close>

theorem retry_counter_reset_on_success_only:
  "(tryFetch H outcome = Inr s \<longrightarrow>
       retryCount (doFetchQuota H outcome c) = 0 \<and> retryCount (quickRefresh H outcome c) = 0
     \<and> (\<not> isRetrying c \<longrightarrow> retryCount (fetchQuota H outcome c) = 0))
 \<and> retryCount (quickRefresh_begin c) = retryCount c
 \<and> (tryFetch H outcome = Inl e \<and> retryCount c < MAX_RETRY_COUNT \<longrightarrow>
       retryCount (quickRefresh H outcome c) = retryCount c + 1)"
  by (auto simp: quickRefresh_def fetchQuota_def doFetchQuota_failure doFetchQuota_success
      quickRefresh_begin_def doFetchQuota_begin_def)

lemma tryFetch_statusResponse: "\<exists>s. tryFetch testHost (Inr statusResponse) = Inr s"
  by (simp add: tryFetch_def statusResponse_def getInvalidCodeInfo_def optProp_def getProp_def
      parseGetUserStatusResponse_def truthy_def modelEntry_def parseModelQuota_def nullish_def
      clockReadings_def)

theorem retry_counter_reset_on_success_only_witness:
  "retryCount retryingClient = 1
 \<and> retryCount (quickRefresh testHost (Inr statusResponse) retryingClient) = 0
 \<and> retryCount (quickRefresh_begin retryingClient) = 1
 \<and> retryCount (quickRefresh testHost timeoutError retryingClient) = 2"
proof -
  obtain s where s: "tryFetch testHost (Inr statusResponse) = Inr s"
    using tryFetch_statusResponse by blast
  have r: "retryCount retryingClient = 1"
    by (simp add: retryingClient_eq)
  show ?thesis
    using retry_counter_reset_on_success_only
            [of testHost "Inr statusResponse" s retryingClient
                "RequestFailed \<lparr>err_code = None, err_message = ''Timeout''\<rparr>"]
          retry_counter_reset_on_success_only
            [of testHost timeoutError s retryingClient
                "RequestFailed \<lparr>err_code = None, err_message = ''Timeout''\<rparr>"]
    by (simp add: s r tryFetch_timeout MAX_RETRY_COUNT_def)
qed

text \<open>A manual refresh on a fresh client whose request times out leaves the counter at 1:
  requesting the refresh did not reset it, and the failure raised it.\<close>

theorem quickRefresh_does_not_reset_counter:
  "retryCount polledClient = 0
 \<and> retryCount (quickRefresh testHost timeoutError polledClient) = 1
 \<and> retryCount (quickRefresh testHost timeoutError
                  (quickRefresh testHost timeoutError polledClient)) = 2"
  by (simp add: quickRefresh_def doFetchQuota_failure [OF tryFetch_timeout] polledClient_def
      onError_def newClient_def MAX_RETRY_COUNT_def)

section \<open>The fallback to plain HTTP\<close>

lemma startsWith_map: "startsWith s p \<Longrightarrow> startsWith (map f s) (map f p)"
  by (induction s p rule: startsWith.induct) simp_all

lemma str_includes_map: "str_includes s p \<Longrightarrow> str_includes (map f s) (map f p)"
proof (induction s)
  case Nil
  then show ?case by simp
next
  case (Cons c cs)
  then show ?case using startsWith_map [of "c # cs" p f] by auto
qed

lemma lower_signature: "toLowerCase ''wrong_version_number'' = ''wrong_version_number''"
  by (simp add: toLowerCase_def lowerChar_def)

lemma str_includes_lower:
  "str_includes s ''wrong_version_number''
     \<Longrightarrow> str_includes (toLowerCase s) ''wrong_version_number''"
  using str_includes_map [of s "''wrong_version_number''" lowerChar] lower_signature
  by (simp add: toLowerCase_def)

text \<open>
  C5. The request carries a token and its HTTPS attempt fails. If a fallback port is
  configured and the error has the protocol-mismatch signature, which is the code
  \<^verbatim>\<open>EPROTO\<close> or a message that contains "wrong_version_number" (the code compares the
  message in lower case, so the letter case of the text does not matter), \<^verbatim>\<open>makeRequest\<close>
  issues one more request, over plain HTTP to the fallback port, and returns what that
  request returns. With no fallback port, or with any other error, the HTTPS request is the
  only one and its error is returned.
\<close>

theorem http_fallback_on_protocol_mismatch:
  assumes "tok \<noteq> None" and "tok \<noteq> Some []" and "doRequest True p = Inl error"
  shows "(hp = Some fb \<and> (err_code error = Some ''EPROTO''
                        \<or> str_includes (toLowerCase (err_message error)) ''wrong_version_number'')
           \<longrightarrow> makeRequest doRequest p hp tok = (doRequest False fb, [(True, p), (False, fb)]))
       \<and> (hp = Some fb \<and> str_includes (err_message error) ''wrong_version_number''
           \<longrightarrow> makeRequest doRequest p hp tok = (doRequest False fb, [(True, p), (False, fb)]))
       \<and> (hp = None \<or> \<not> (err_code error = Some ''EPROTO''
                        \<or> str_includes (toLowerCase (err_message error)) ''wrong_version_number'')
           \<longrightarrow> makeRequest doRequest p hp tok = (Inl error, [(True, p)]))"
  using assms str_includes_lower [of "err_message error"]
  by (cases hp) (auto simp: makeRequest_def Let_def)

theorem http_fallback_on_protocol_mismatch_witness:
  "makeRequest (plainServer openSslMismatch) 7070 (Some 5050) (Some ''abc123'')
     = (Inr (JObj [(''code'', JNum 0)]), [(True, 7070), (False, 5050)])
 \<and> makeRequest (plainServer boringSslMismatch) 7070 (Some 5050) (Some ''abc123'')
     = (Inr (JObj [(''code'', JNum 0)]), [(True, 7070), (False, 5050)])
 \<and> makeRequest (plainServer openSslMismatch) 7070 None (Some ''abc123'')
     = (Inl openSslMismatch, [(True, 7070)])
 \<and> makeRequest (plainServer connectionRefused) 7070 (Some 5050) (Some ''abc123'')
     = (Inl connectionRefused, [(True, 7070)])"
proof -
  have t: "Some ''abc123'' \<noteq> None" "Some ''abc123'' \<noteq> Some []"
    by simp_all
  have a: "plainServer e True 7070 = Inl e" "plainServer e False 5050 = Inr (JObj [(''code'', JNum 0)])"
    for e
    by (simp_all add: plainServer_def)
  have r: "err_code connectionRefused \<noteq> Some ''EPROTO''"
    "\<not> str_includes (toLowerCase (err_message connectionRefused)) ''wrong_version_number''"
    by (simp_all add: connectionRefused_def toLowerCase_def lowerChar_def)
  have o: "err_code openSslMismatch = Some ''EPROTO''"
    by (simp add: openSslMismatch_def)
  have b: "str_includes (toLowerCase (err_message boringSslMismatch)) ''wrong_version_number''"
    by (simp add: boringSslMismatch_def toLowerCase_def lowerChar_def)
  show ?thesis
    using http_fallback_on_protocol_mismatch
            [where doRequest = "plainServer openSslMismatch" and hp = "Some 5050" and fb = 5050,
             OF t a(1)]
          http_fallback_on_protocol_mismatch
            [where doRequest = "plainServer boringSslMismatch" and hp = "Some 5050" and fb = 5050,
             OF t a(1)]
          http_fallback_on_protocol_mismatch
            [where doRequest = "plainServer openSslMismatch" and hp = None and fb = 5050,
             OF t a(1)]
          http_fallback_on_protocol_mismatch
            [where doRequest = "plainServer connectionRefused" and hp = "Some 5050" and fb = 5050,
             OF t a(1)]
    by (simp add: a r o b)
qed

section \<open>The reset time of a model\<close>

lemma truthy_not_nullish: "truthy v \<Longrightarrow> \<not> nullish v"
  by (auto simp: truthy_def nullish_def split: option.splits json.splits)

lemma truthy_prop_not_null: "truthy (getProp config k) \<Longrightarrow> config \<noteq> JNull"
  by (auto simp: truthy_def getProp_def)

lemma parseModelQuota_far:
  assumes "truthy (getProp config ''quotaInfo'')" and "\<not> nullish (getProp config ''modelOrAlias'')"
    and "\<not> truthy (optProp (getProp config ''quotaInfo'') ''resetTime'')
       \<or> optProp (getProp config ''quotaInfo'') ''resetTime'' = Some (JStr ''infinite'')"
  shows "parseModelQuota H now1 now2 config =
     Inr \<lparr>label = getProp config ''label'',
          modelId = optProp (getProp config ''modelOrAlias'') ''model'',
          remainingFraction = optProp (getProp config ''quotaInfo'') ''remainingFraction'',
          remainingPercentage =
            (case optProp (getProp config ''quotaInfo'') ''remainingFraction'' of
               None \<Rightarrow> None
             | Some f \<Rightarrow> Some (map_option (\<lambda>n. n * 100) (toNumber H f))),
          isExhausted = (optProp (getProp config ''quotaInfo'') ''remainingFraction'' = None
                       \<or> optProp (getProp config ''quotaInfo'') ''remainingFraction''
                           = Some (JNum 0)),
          resetTime = FAR_FUTURE,
          timeUntilReset = FAR_FUTURE,
          timeUntilResetFormatted = formatTimeUntilReset FAR_FUTURE\<rparr>"
proof -
  have c: "config \<noteq> JNull" using assms(1) by (rule truthy_prop_not_null)
  have q: "\<not> nullish (getProp config ''quotaInfo'')" using assms(1) by (rule truthy_not_nullish)
  have i: "(\<not> truthy (optProp (getProp config ''quotaInfo'') ''resetTime'')
       \<or> optProp (getProp config ''quotaInfo'') ''resetTime'' = Some (JStr ''infinite'')) = True"
    using assms(3) by simp
  show ?thesis
    unfolding parseModelQuota_def Let_def
    by (simp only: c q assms(2) i if_True if_False prod.case)
qed

lemma parseModelQuota_fallback:
  assumes "truthy (getProp config ''quotaInfo'')" and "\<not> nullish (getProp config ''modelOrAlias'')"
    and "truthy (optProp (getProp config ''quotaInfo'') ''resetTime'')"
    and "optProp (getProp config ''quotaInfo'') ''resetTime'' \<noteq> Some (JStr ''infinite'')"
    and "dateValue H (the (optProp (getProp config ''quotaInfo'') ''resetTime'')) = None"
  shows "parseModelQuota H now1 now2 config =
     Inr \<lparr>label = getProp config ''label'',
          modelId = optProp (getProp config ''modelOrAlias'') ''model'',
          remainingFraction = optProp (getProp config ''quotaInfo'') ''remainingFraction'',
          remainingPercentage =
            (case optProp (getProp config ''quotaInfo'') ''remainingFraction'' of
               None \<Rightarrow> None
             | Some f \<Rightarrow> Some (map_option (\<lambda>n. n * 100) (toNumber H f))),
          isExhausted = (optProp (getProp config ''quotaInfo'') ''remainingFraction'' = None
                       \<or> optProp (getProp config ''quotaInfo'') ''remainingFraction''
                           = Some (JNum 0)),
          resetTime = now1 + 24 * 60 * 60 * 1000,
          timeUntilReset = now1 + 24 * 60 * 60 * 1000 - now2,
          timeUntilResetFormatted = formatTimeUntilReset (now1 + 24 * 60 * 60 * 1000 - now2)\<rparr>"
proof -
  have c: "config \<noteq> JNull" using assms(1) by (rule truthy_prop_not_null)
  have q: "\<not> nullish (getProp config ''quotaInfo'')" using assms(1) by (rule truthy_not_nullish)
  have i: "(\<not> truthy (optProp (getProp config ''quotaInfo'') ''resetTime'')
       \<or> optProp (getProp config ''quotaInfo'') ''resetTime'' = Some (JStr ''infinite'')) = False"
    using assms(3,4) by simp
  show ?thesis
    unfolding parseModelQuota_def Let_def
    by (simp only: c q assms(2) assms(5) i if_True if_False prod.case option.case)
qed

lemma modelEntry_props:
  "getProp (modelEntry reset) ''quotaInfo''
     = Some (JObj [(''remainingFraction'', JNum (1 / 2)), (''resetTime'', reset)])"
  "getProp (modelEntry reset) ''modelOrAlias'' = Some (JObj [(''model'', JStr ''MODEL_A'')])"
  "optProp (getProp (modelEntry reset) ''quotaInfo'') ''resetTime'' = Some reset"
  "optProp (getProp (modelEntry reset) ''quotaInfo'') ''remainingFraction'' = Some (JNum (1 / 2))"
  by (simp_all add: modelEntry_def getProp_def optProp_def)

text \<open>
  C9, as the code has it, for a model entry with quota info and a \<^verbatim>\<open>modelOrAlias\<close>, where
  \<open>rt\<close> is its \<^verbatim>\<open>resetTime\<close> and \<open>rf\<close> its \<^verbatim>\<open>remainingFraction\<close>. If \<open>rt\<close> is falsy (absent,
  \<^verbatim>\<open>null\<close>, the empty string, 0 or \<^verbatim>\<open>false\<close>) or the string "infinite", \<^verbatim>\<open>parseModelQuota\<close>
  returns a model whose \<^verbatim>\<open>timeUntilReset\<close> and reset time are 8640000000000000 ms. If
  \<open>rt\<close> is truthy, is not "infinite" and is no valid date, the model is returned all the
  same, with a reset time 24 hours after the clock reading. In both cases \<^verbatim>\<open>isExhausted\<close>
  holds exactly when \<open>rf\<close> is absent or the number 0.
\<close>

theorem reset_time_sentinel_and_fallback:
  assumes "truthy (getProp config ''quotaInfo'')" and "\<not> nullish (getProp config ''modelOrAlias'')"
    and "rt = optProp (getProp config ''quotaInfo'') ''resetTime''"
    and "rf = optProp (getProp config ''quotaInfo'') ''remainingFraction''"
  shows "(\<not> truthy rt \<or> rt = Some (JStr ''infinite'') \<longrightarrow>
           (\<exists>m. parseModelQuota H now1 now2 config = Inr m
               \<and> timeUntilReset m = 8640000000000000 \<and> resetTime m = 8640000000000000
               \<and> (isExhausted m \<longleftrightarrow> rf = None \<or> rf = Some (JNum 0))))
       \<and> (truthy rt \<and> rt \<noteq> Some (JStr ''infinite'') \<and> dateValue H (the rt) = None \<longrightarrow>
           (\<exists>m. parseModelQuota H now1 now2 config = Inr m
               \<and> resetTime m = now1 + 24 * 60 * 60 * 1000
               \<and> timeUntilReset m = now1 + 24 * 60 * 60 * 1000 - now2
               \<and> (isExhausted m \<longleftrightarrow> rf = None \<or> rf = Some (JNum 0))))"
proof (intro conjI impI)
  assume "\<not> truthy rt \<or> rt = Some (JStr ''infinite'')"
  then show "\<exists>m. parseModelQuota H now1 now2 config = Inr m
               \<and> timeUntilReset m = 8640000000000000 \<and> resetTime m = 8640000000000000
               \<and> (isExhausted m \<longleftrightarrow> rf = None \<or> rf = Some (JNum 0))"
    using parseModelQuota_far [OF assms(1,2), of H now1 now2]
    by (simp add: assms(3,4) FAR_FUTURE_def)
next
  assume "truthy rt \<and> rt \<noteq> Some (JStr ''infinite'') \<and> dateValue H (the rt) = None"
  then show "\<exists>m. parseModelQuota H now1 now2 config = Inr m
               \<and> resetTime m = now1 + 24 * 60 * 60 * 1000
               \<and> timeUntilReset m = now1 + 24 * 60 * 60 * 1000 - now2
               \<and> (isExhausted m \<longleftrightarrow> rf = None \<or> rf = Some (JNum 0))"
    using parseModelQuota_fallback [OF assms(1,2), of H now1 now2]
    by (simp add: assms(3,4))
qed

theorem reset_time_sentinel_and_fallback_witness:
  "map_sum id (\<lambda>m. (resetTime m, timeUntilReset m, isExhausted m))
     (parseModelQuota testHost 1700000000000 1700000000005 (modelEntry (JStr ''infinite'')))
     = Inr (8640000000000000, 8640000000000000, False)
 \<and> map_sum id (\<lambda>m. (resetTime m, timeUntilReset m, isExhausted m))
     (parseModelQuota testHost 1700000000000 1700000000005 (modelEntry (JStr ''next week'')))
     = Inr (1700086400000, 86399995, False)"
proof -
  have a: "truthy (getProp (modelEntry r) ''quotaInfo'')" for r
    by (simp add: modelEntry_props truthy_def)
  have b: "\<not> nullish (getProp (modelEntry r) ''modelOrAlias'')" for r
    by (simp add: modelEntry_props nullish_def)
  have d: "dateValue testHost (JStr ''next week'') = None"
    by (simp add: testHost_def)
  have t: "truthy (Some (JStr ''next week''))" "truthy (Some (JStr ''infinite''))"
    by (simp_all add: truthy_def)
  show ?thesis
    using reset_time_sentinel_and_fallback
            [OF a b modelEntry_props(3) [symmetric] modelEntry_props(4) [symmetric],
             of "JStr ''infinite''" testHost 1700000000000 1700000000005]
          reset_time_sentinel_and_fallback
            [OF a b modelEntry_props(3) [symmetric] modelEntry_props(4) [symmetric],
             of "JStr ''next week''" testHost 1700000000000 1700000000005]
    by (auto simp: d t)
qed

text \<open>A \<^verbatim>\<open>resetTime\<close> that is present and is no valid date, the empty string, does not get
  the 24 hours: the model's reset time is the far future.\<close>

theorem empty_reset_time_is_far_future:
  "optProp (getProp (modelEntry (JStr [])) ''quotaInfo'') ''resetTime'' = Some (JStr [])
 \<and> dateValue testHost (JStr []) = None
 \<and> map_sum id resetTime
     (parseModelQuota testHost 1700000000000 1700000000000 (modelEntry (JStr [])))
     = Inr 8640000000000000"
proof -
  have a: "truthy (getProp (modelEntry (JStr [])) ''quotaInfo'')"
    by (simp add: modelEntry_props truthy_def)
  have b: "\<not> nullish (getProp (modelEntry (JStr [])) ''modelOrAlias'')"
    by (simp add: modelEntry_props nullish_def)
  have c: "\<not> truthy (optProp (getProp (modelEntry (JStr [])) ''quotaInfo'') ''resetTime'')
         \<or> optProp (getProp (modelEntry (JStr [])) ''quotaInfo'') ''resetTime''
             = Some (JStr ''infinite'')"
    by (simp add: modelEntry_props(3) truthy_def)
  have d: "dateValue testHost (JStr []) = None"
    by (simp add: testHost_def)
  show ?thesis
    by (simp add: parseModelQuota_far [OF a b c] modelEntry_props(3) d FAR_FUTURE_def)
qed

section \<open>Rebinding the endpoint\<close>

text \<open>
  C10. \<^verbatim>\<open>setPorts(connectPort, httpPort)\<close> sets the secure port to \<^verbatim>\<open>connectPort\<close>, the
  fallback port to \<^verbatim>\<open>httpPort\<close>, or to \<^verbatim>\<open>connectPort\<close> when \<^verbatim>\<open>httpPort\<close> is left out, and
  the retry counter to 0. The token, the three subscribers, the retrying flag, the
  first-attempt flag and the polling timer stay as they are, and so do the requests in
  flight, the pending retry timers and the calls made so far.
\<close>

theorem setPorts_frame:
  "port (setPorts secure fallback c) = secure
 \<and> httpPort (setPorts secure fallback c)
     = Some (case fallback of Some h \<Rightarrow> h | None \<Rightarrow> secure)
 \<and> retryCount (setPorts secure fallback c) = 0
 \<and> csrfToken (setPorts secure fallback c) = csrfToken c
 \<and> updateCallback (setPorts secure fallback c) = updateCallback c
 \<and> errorCallback (setPorts secure fallback c) = errorCallback c
 \<and> statusCallback (setPorts secure fallback c) = statusCallback c
 \<and> isRetrying (setPorts secure fallback c) = isRetrying c
 \<and> isFirstAttempt (setPorts secure fallback c) = isFirstAttempt c
 \<and> pollingInterval (setPorts secure fallback c) = pollingInterval c
 \<and> inFlight (setPorts secure fallback c) = inFlight c
 \<and> retryTimers (setPorts secure fallback c) = retryTimers c
 \<and> calls (setPorts secure fallback c) = calls c"
  by (simp add: setPorts_def)


section \<open>The tool switch of the detection loop\<close>

lemma detectLoop_switches:
  "toolSwitches (detectLoop w m n strat k d sw)
     \<le> sw + (if strat = WindowsStrategy False then 1 else 0)"
proof (induction w m n strat k d sw rule: detectLoop.induct)
  case (1 w maxRetries n strat k waited switched)
  show ?case
  proof (cases "n \<le> maxRetries")
    case False
    then show ?thesis by (simp add: detectLoop.simps [of w maxRetries n])
  next
    case le: True
    show ?thesis
    proof (cases "attemptBody w k strat")
      case (Inr info)
      then show ?thesis using le by (simp add: detectLoop.simps [of w maxRetries n])
    next
      case (Inl errorMsg)
      show ?thesis
      proof (cases "toolMissing errorMsg \<and> strat = WindowsStrategy False")
        case True
        then show ?thesis
          using le Inl "1.IH"(1) [OF le Inl True]
          by (simp add: detectLoop.simps [of w maxRetries n])
      next
        case False
        then show ?thesis
          using le Inl "1.IH"(2) [OF le Inl False]
          by (simp add: detectLoop.simps [of w maxRetries n] split: if_splits)
      qed
    qed
  qed
qed

lemma detectLoop_no_switch:
  "strat \<noteq> WindowsStrategy False \<Longrightarrow>
     toolSwitches (detectLoop w m n strat k d sw) = sw
   \<and> strategyAfter (detectLoop w m n strat k d sw) = strat"
proof (induction w m n strat k d sw rule: detectLoop.induct)
  case (1 w maxRetries n strat k waited switched)
  show ?case
  proof (cases "n \<le> maxRetries")
    case False
    then show ?thesis by (simp add: detectLoop.simps [of w maxRetries n])
  next
    case le: True
    show ?thesis
    proof (cases "attemptBody w k strat")
      case (Inr info)
      then show ?thesis using le by (simp add: detectLoop.simps [of w maxRetries n])
    next
      case (Inl errorMsg)
      have f: "\<not> (toolMissing errorMsg \<and> strat = WindowsStrategy False)"
        using "1.prems" by simp
      show ?thesis
        using le Inl f "1.IH"(2) [OF le Inl f "1.prems"] "1.prems"
        by (simp add: detectLoop.simps [of w maxRetries n])
    qed
  qed
qed

text \<open>
  C6, as the code has it. On Windows, when the detector uses the legacy listing tool
  (\<^verbatim>\<open>usePowerShell\<close> is false) and a round of the loop, at any attempt within the budget,
  fails with a message that contains "not found", "not recognized" or the Chinese text, the
  loop switches the strategy to the modern tool, PowerShell, and goes on with the same value
  of \<^verbatim>\<open>attempt\<close> and without a delay; when the next round succeeds, the run ends with
  that value of \<^verbatim>\<open>attempt\<close>. Any other failure within the budget, and every failure with
  the modern tool or on Unix, takes the next value of \<^verbatim>\<open>attempt\<close>, after the delay unless
  the budget is used up. So a run whose first listing lacks the tool and whose second
  succeeds ends with \<^verbatim>\<open>attempt\<close> 1 after two executions. No run switches the tool more
  than once, and a run that starts with the modern tool, or on Unix, never switches and
  keeps its strategy.
\<close>

theorem tool_switch_keeps_attempt_slot:
  "(n \<le> maxRetries \<and> attemptBody w k (WindowsStrategy False) = Inl errorMsg
      \<and> toolMissing errorMsg \<longrightarrow>
      detectLoop w maxRetries n (WindowsStrategy False) k waited switched
        = detectLoop w maxRetries n (WindowsStrategy True) (Suc k) waited (Suc switched)
    \<and> (attemptBody w (Suc k) (WindowsStrategy True) = Inr info \<longrightarrow>
         detectLoop w maxRetries n (WindowsStrategy False) k waited switched
           = \<lparr>found = Some info, attempt = n, executions = Suc (Suc k), delays = waited,
              toolSwitches = Suc switched, strategyAfter = WindowsStrategy True\<rparr>))
 \<and> (n \<le> maxRetries \<and> attemptBody w k strat = Inl errorMsg
      \<and> \<not> (toolMissing errorMsg \<and> strat = WindowsStrategy False) \<longrightarrow>
      detectLoop w maxRetries n strat k waited switched
        = detectLoop w maxRetries (Suc n) strat (Suc k)
            (if n < maxRetries then Suc waited else waited) switched)
 \<and> (1 \<le> maxRetries \<and> attemptBody w 0 (WindowsStrategy False) = Inl errorMsg
      \<and> toolMissing errorMsg \<and> attemptBody w 1 (WindowsStrategy True) = Inr info \<longrightarrow>
      detectProcessInfo w (WindowsStrategy False) maxRetries
        = \<lparr>found = Some info, attempt = 1, executions = 2, delays = 0,
           toolSwitches = 1, strategyAfter = WindowsStrategy True\<rparr>)
 \<and> toolSwitches (detectProcessInfo w strat maxRetries) \<le> 1
 \<and> (strat \<noteq> WindowsStrategy False \<longrightarrow>
      toolSwitches (detectProcessInfo w strat maxRetries) = 0
    \<and> strategyAfter (detectProcessInfo w strat maxRetries) = strat)"
proof -
  have step: "detectLoop w maxRetries n (WindowsStrategy False) k waited switched
        = detectLoop w maxRetries n (WindowsStrategy True) (Suc k) waited (Suc switched)"
    if "n \<le> maxRetries" "attemptBody w k (WindowsStrategy False) = Inl errorMsg"
      "toolMissing errorMsg"
    using that
    by (simp add: detectLoop.simps [of w maxRetries n "WindowsStrategy False" k waited switched])
  have ends: "detectLoop w maxRetries n (WindowsStrategy True) (Suc k) waited (Suc switched)
        = \<lparr>found = Some info, attempt = n, executions = Suc (Suc k), delays = waited,
           toolSwitches = Suc switched, strategyAfter = WindowsStrategy True\<rparr>"
    if "n \<le> maxRetries" "attemptBody w (Suc k) (WindowsStrategy True) = Inr info"
    using that
    by (simp add: detectLoop.simps
                    [of w maxRetries n "WindowsStrategy True" "Suc k" waited "Suc switched"])
  have other: "detectLoop w maxRetries n strat k waited switched
        = detectLoop w maxRetries (Suc n) strat (Suc k)
            (if n < maxRetries then Suc waited else waited) switched"
    if "n \<le> maxRetries" "attemptBody w k strat = Inl errorMsg"
      "\<not> (toolMissing errorMsg \<and> strat = WindowsStrategy False)"
    using that
    by (auto simp: detectLoop.simps [of w maxRetries n strat k waited switched])
  have start: "detectProcessInfo w (WindowsStrategy False) maxRetries
        = \<lparr>found = Some info, attempt = 1, executions = 2, delays = 0,
           toolSwitches = 1, strategyAfter = WindowsStrategy True\<rparr>"
    if "1 \<le> maxRetries" "attemptBody w 0 (WindowsStrategy False) = Inl errorMsg"
      "toolMissing errorMsg" "attemptBody w 1 (WindowsStrategy True) = Inr info"
    using that
    by (simp add: detectProcessInfo_def detectLoop.simps [of w maxRetries "Suc 0"])
  have bound: "toolSwitches (detectProcessInfo w strat maxRetries) \<le> 1"
    using detectLoop_switches [of w maxRetries 1 strat 0 0 0]
    by (simp add: detectProcessInfo_def split: if_splits)
  have keep: "toolSwitches (detectProcessInfo w strat maxRetries) = 0
      \<and> strategyAfter (detectProcessInfo w strat maxRetries) = strat"
    if "strat \<noteq> WindowsStrategy False"
    using detectLoop_no_switch [OF that, of w maxRetries 1 0 0 0]
    by (simp add: detectProcessInfo_def)
  show ?thesis
    using step ends other start bound keep by metis
qed

lemma flaky_first:
  "attemptBody flakyListing 0 strat
     = Inl ''Command failed: the command is not recognized as an internal or external command''"
  by (simp add: attemptBody_def flakyListing_def)

lemma flaky_second:
  "attemptBody flakyListing 1 strat
     = Inr \<lparr>extensionPort = 5050, connectPort = 7070, csrfToken = ''abc123''\<rparr>"
  by (simp add: attemptBody_def flakyListing_def findWorkingPort_def)

lemma flaky_missing:
  "toolMissing
     ''Command failed: the command is not recognized as an internal or external command''"
  by (simp add: toolMissing_def)

lemma late_rounds:
  "attemptBody lateMissing 0 strat = Inl ''Command failed: process listing timed out''"
  "attemptBody lateMissing (Suc 0) strat
     = Inl ''Command failed: the command is not recognized as an internal or external command''"
  "attemptBody lateMissing (Suc (Suc 0)) strat
     = Inr \<lparr>extensionPort = 5050, connectPort = 7070, csrfToken = ''abc123''\<rparr>"
  by (simp_all add: attemptBody_def lateMissing_def findWorkingPort_def)

lemma timeout_not_missing: "\<not> toolMissing ''Command failed: process listing timed out''"
  by (simp add: toolMissing_def)

theorem tool_switch_keeps_attempt_slot_witness:
  "detectProcessInfo flakyListing (WindowsStrategy False) 3 =
     \<lparr>found = Some \<lparr>extensionPort = 5050, connectPort = 7070, csrfToken = ''abc123''\<rparr>,
      attempt = 1, executions = 2, delays = 0, toolSwitches = 1,
      strategyAfter = WindowsStrategy True\<rparr>
 \<and> detectProcessInfo lateMissing (WindowsStrategy False) 2 =
     \<lparr>found = Some \<lparr>extensionPort = 5050, connectPort = 7070, csrfToken = ''abc123''\<rparr>,
      attempt = 2, executions = 3, delays = 1, toolSwitches = 1,
      strategyAfter = WindowsStrategy True\<rparr>
 \<and> toolSwitches (detectProcessInfo flakyListing UnixStrategy 3) = 0
 \<and> strategyAfter (detectProcessInfo flakyListing UnixStrategy 3) = UnixStrategy"
proof -
  let ?missing =
    "''Command failed: the command is not recognized as an internal or external command''"
  let ?server = "\<lparr>extensionPort = 5050, connectPort = 7070, csrfToken = ''abc123''\<rparr>"
  have a: "detectProcessInfo flakyListing (WindowsStrategy False) 3 =
     \<lparr>found = Some ?server, attempt = 1, executions = 2, delays = 0, toolSwitches = 1,
      strategyAfter = WindowsStrategy True\<rparr>"
    using tool_switch_keeps_attempt_slot
            [where w = flakyListing and maxRetries = 3 and errorMsg = ?missing
               and info = ?server]
          flaky_first flaky_missing flaky_second
    by simp
  have b1: "detectLoop lateMissing 2 1 (WindowsStrategy False) 0 0 0
            = detectLoop lateMissing 2 2 (WindowsStrategy False) 1 1 0"
    using tool_switch_keeps_attempt_slot
            [where w = lateMissing and maxRetries = 2 and n = 1 and k = 0 and waited = 0
               and switched = 0 and strat = "WindowsStrategy False"
               and errorMsg = "''Command failed: process listing timed out''"]
          late_rounds(1) timeout_not_missing
    by (simp add: numeral_2_eq_2)
  have b2: "detectLoop lateMissing 2 2 (WindowsStrategy False) 1 1 0
            = \<lparr>found = Some ?server, attempt = 2, executions = 3, delays = 1,
               toolSwitches = 1, strategyAfter = WindowsStrategy True\<rparr>"
    using tool_switch_keeps_attempt_slot
            [where w = lateMissing and maxRetries = 2 and n = 2 and k = 1 and waited = 1
               and switched = 0 and errorMsg = ?missing and info = ?server
               and strat = UnixStrategy]
          late_rounds(2,3) flaky_missing
    by (auto simp: numeral_2_eq_2 numeral_3_eq_3)
  have b: "detectProcessInfo lateMissing (WindowsStrategy False) 2 =
     \<lparr>found = Some ?server, attempt = 2, executions = 3, delays = 1, toolSwitches = 1,
      strategyAfter = WindowsStrategy True\<rparr>"
    using b1 b2 by (simp add: detectProcessInfo_def)
  have c: "toolSwitches (detectProcessInfo flakyListing UnixStrategy 3) = 0
         \<and> strategyAfter (detectProcessInfo flakyListing UnixStrategy 3) = UnixStrategy"
    using tool_switch_keeps_attempt_slot
            [where w = flakyListing and maxRetries = 3 and strat = UnixStrategy]
    by simp
  show ?thesis using a b c by simp
qed

text \<open>With the modern tool in use, the same failure is an ordinary one: the strategy stays
  with PowerShell, the loop waits, and the success comes on attempt 2.\<close>

theorem missing_modern_tool_consumes_attempt:
  "detectProcessInfo flakyListing (WindowsStrategy True) 3 =
     \<lparr>found = Some \<lparr>extensionPort = 5050, connectPort = 7070, csrfToken = ''abc123''\<rparr>,
      attempt = 2, executions = 2, delays = 1, toolSwitches = 0,
      strategyAfter = WindowsStrategy True\<rparr>"
  by (simp add: detectProcessInfo_def detectLoop.simps [of flakyListing 3] flaky_first
      flaky_second [unfolded One_nat_def])

section \<open>The process record of the Unix detector\<close>














section \<open>The listening ports\<close>












end
